theory Spec2Isabelle
  imports Main
begin

section \<open>Data\<close>

text \<open>
  \<open>User\<close> and \<open>Session\<close> come from the identity client library; the provider reads
  \<open>user.id\<close> and \<open>session.user\<close> only. \<open>Session.user\<close> is declared non-optional, so
  \<open>newSession?.user\<close> is absent exactly when the session is.
\<close>

record user =
  user_id :: string
  user_email :: string

record session =
  access_token :: string
  session_user :: user

text \<open>
  Modelled from the spec: the row type \<open>Database['public']['Tables']['profiles']['Row']\<close>
  is declared in \<open>lib/supabase\<close>, which is not among the sources. The spec gives a profile
  record the fields id, fullName, role and email; \<open>signUp\<close> inserts exactly these
  columns. The role is kept as the string the code compares with \<open>'admin'\<close> and
  \<open>'student'\<close>.
\<close>

record profile =
  profile_id :: string
  email :: string
  full_name :: string
  role :: string

text \<open>A thrown JavaScript value: the \<open>name\<close> and \<open>message\<close> of the error object.\<close>

datatype js_exn = JsExn (exn_name: string) (exn_message: string)

text \<open>How an awaited promise settles: it resolves with a value or rejects.\<close>

datatype 'a settled = Resolved 'a | Rejected js_exn

text \<open>The \<open>error\<close> member of a query result; the code reads its \<open>code\<close>.\<close>

record pg_error =
  code :: string

type_synonym auth_error = string

text \<open>The four \<open>useState\<close> cells of \<open>AuthProvider\<close>.\<close>

record auth_state =
  user :: "user option"
  profile :: "profile option"
  session :: "session option"
  loading :: bool

section \<open>The consumer surface\<close>

text \<open>\<open>profile?.role === 'admin'\<close>: the optional chain is undefined on a null profile.\<close>

definition isAdmin :: "'a auth_state_scheme \<Rightarrow> bool" where
  "isAdmin s = (map_option role (profile s) = Some ''admin'')"

definition isStudent :: "'a auth_state_scheme \<Rightarrow> bool" where
  "isStudent s = (map_option role (profile s) = Some ''student'')"

text \<open>
  The object handed to \<open>AuthContext.Provider\<close>. Its three action members are closures
  over the provider and are modelled as events of the provider below.
\<close>

record auth_context_value =
  value_user :: "user option"
  value_profile :: "profile option"
  value_session :: "session option"
  value_loading :: bool
  value_isAdmin :: bool
  value_isStudent :: bool

definition provider_value :: "'a auth_state_scheme \<Rightarrow> auth_context_value" where
  "provider_value s =
     \<lparr>value_user = user s, value_profile = profile s, value_session = session s,
      value_loading = loading s, value_isAdmin = isAdmin s, value_isStudent = isStudent s\<rparr>"

text \<open>
  \<open>useContext(AuthContext)\<close>: the context is created with default \<open>undefined\<close>, which
  is what a component outside every provider reads; inside a provider it reads the value
  of the nearest one.
\<close>

definition useContext :: "'a auth_state_scheme option \<Rightarrow> auth_context_value option" where
  "useContext nearest = map_option provider_value nearest"

definition useAuth :: "'a auth_state_scheme option \<Rightarrow> js_exn + auth_context_value" where
  "useAuth nearest =
     (case useContext nearest of
        None \<Rightarrow> Inl (JsExn ''Error'' ''useAuth must be used within an AuthProvider'')
      | Some context \<Rightarrow> Inr context)"

section \<open>The provider of \<open>src/contexts/AuthContext.tsx\<close>\<close>

text \<open>
  Besides the four state cells the provider's effect closes over \<open>mounted\<close>,
  \<open>profileFetchController\<close> and \<open>initializationTimeout\<close>. Abort controllers are
  numbered in the order of their creation: \<open>controllers\<close> counts them and \<open>aborted\<close>
  holds those whose signal is aborted. \<open>initializationTimeout\<close> tells whether the variable
  holds a timer handle, \<open>timer_pending\<close> whether that timer is still scheduled.

  The remaining fields are the suspended calls: the awaited \<open>getSession\<close>, the awaited
  profile queries (each with the number of the controller whose signal it was given and
  the \<open>userId\<close> it captured), and the numbers of \<open>signIn\<close>, \<open>signUp\<close> (before and
  after its profile insert) and \<open>signOut\<close> calls waiting for the backend.
\<close>

record provider = auth_state +
  mounted :: bool
  profileFetchController :: "nat option"
  aborted :: "nat set"
  controllers :: nat
  initializationTimeout :: bool
  timer_pending :: bool
  getSession_pending :: bool
  fetches :: "(nat \<times> string) list"
  signIn_pending :: nat
  signUp_pending :: nat
  insert_pending :: nat
  signOut_pending :: nat

text \<open>\<open>if (profileFetchController) profileFetchController.abort()\<close>\<close>

definition abort_controller :: "provider \<Rightarrow> provider" where
  "abort_controller s =
     (case profileFetchController s of
        None \<Rightarrow> s
      | Some c \<Rightarrow> s\<lparr>aborted := insert c (aborted s)\<rparr>)"

text \<open>\<open>if (initializationTimeout) { clearTimeout(initializationTimeout); initializationTimeout = null }\<close>\<close>

definition clear_initializationTimeout :: "provider \<Rightarrow> provider" where
  "clear_initializationTimeout s =
     (if initializationTimeout s
      then s\<lparr>timer_pending := False, initializationTimeout := False\<rparr>
      else s)"

definition resetAuthState :: "provider \<Rightarrow> provider" where
  "resetAuthState s =
     (if \<not> mounted s then s
      else s\<lparr>user := None, profile := None, session := None, loading := False\<rparr>)"

text \<open>
  \<open>fetchUserProfile\<close> up to its \<open>await\<close>: the previous controller is aborted, a new one
  is stored in the shared variable and the query is issued with its signal.
\<close>

definition fetchUserProfile :: "provider \<Rightarrow> string \<Rightarrow> provider" where
  "fetchUserProfile s userId =
     (if \<not> mounted s then s
      else let s1 = abort_controller s;
               c = controllers s1;
               s2 = s1\<lparr>profileFetchController := Some c, controllers := Suc c\<rparr>
           in s2\<lparr>fetches := fetches s2 @ [(c, userId)]\<rparr>)"

text \<open>
  The \<open>try\<close> block after the \<open>await\<close>. The guard reads the variable
  \<open>profileFetchController\<close> as it is when the query settles, not the controller the query
  was started with. \<open>Inl\<close> is a value thrown inside the block: the rejection of the
  query, or the \<open>TypeError\<close> of reading a member of \<open>null\<close>. An early \<open>return\<close> is
  \<open>Inr\<close> of the unchanged state. Both error branches end in \<open>setProfile(null)\<close>; they
  differ in the console call only.
\<close>

definition fetchUserProfile_try ::
  "provider \<Rightarrow> string \<Rightarrow> (profile option \<times> pg_error option) settled \<Rightarrow> js_exn + provider" where
  "fetchUserProfile_try s userId settlement =
     (case settlement of
        Rejected e \<Rightarrow> Inl e
      | Resolved (data, error) \<Rightarrow>
          if \<not> mounted s then Inr s
          else (case profileFetchController s of
                  None \<Rightarrow> Inl (JsExn ''TypeError'' ''profileFetchController is null'')
                | Some c \<Rightarrow>
                    if c \<in> aborted s then Inr s
                    else (case error of
                            Some err \<Rightarrow>
                              if code err = ''PGRST116''
                              then Inr (s\<lparr>profile := None\<rparr>)
                              else Inr (s\<lparr>profile := None\<rparr>)
                          | None \<Rightarrow>
                              (case data of
                                 None \<Rightarrow> Inl (JsExn ''TypeError'' ''data is null'')
                               | Some row \<Rightarrow> Inr (s\<lparr>profile := Some row\<rparr>)))))"

definition fetchUserProfile_catch :: "provider \<Rightarrow> js_exn \<Rightarrow> provider" where
  "fetchUserProfile_catch s e =
     (if exn_name e = ''AbortError'' then s
      else if mounted s then s\<lparr>profile := None\<rparr> else s)"

definition fetchUserProfile_finally :: "provider \<Rightarrow> provider" where
  "fetchUserProfile_finally s = (if mounted s then s\<lparr>loading := False\<rparr> else s)"

text \<open>
  The whole continuation of \<open>fetchUserProfile\<close>. The \<open>finally\<close> block runs after the
  \<open>try\<close> block, after an early \<open>return\<close> and after the \<open>catch\<close> block alike. The
  result is \<open>Inl\<close> if the promise of \<open>fetchUserProfile\<close> rejects.
\<close>

definition fetchUserProfile_resume ::
  "provider \<Rightarrow> string \<Rightarrow> (profile option \<times> pg_error option) settled \<Rightarrow> js_exn + provider" where
  "fetchUserProfile_resume s userId settlement =
     (case fetchUserProfile_try s userId settlement of
        Inr s' \<Rightarrow> Inr (fetchUserProfile_finally s')
      | Inl e \<Rightarrow> Inr (fetchUserProfile_finally (fetchUserProfile_catch s e)))"

text \<open>The callback of the startup timer (5000 ms).\<close>

definition initializationTimeout_callback :: "provider \<Rightarrow> provider" where
  "initializationTimeout_callback s = (if mounted s then s\<lparr>loading := False\<rparr> else s)"

text \<open>
  \<open>initializeAuth\<close> after \<open>await supabase.auth.getSession()\<close>: the \<open>try\<close> block, the
  \<open>catch\<close> block and the whole continuation.
\<close>

definition initializeAuth_try ::
  "provider \<Rightarrow> (session option \<times> auth_error option) settled \<Rightarrow> js_exn + provider" where
  "initializeAuth_try s settlement =
     (case settlement of
        Rejected e \<Rightarrow> Inl e
      | Resolved (currentSession, error) \<Rightarrow>
          if \<not> mounted s then Inr s
          else let s1 = clear_initializationTimeout s
               in (case error of
                     Some err \<Rightarrow> Inr (resetAuthState s1)
                   | None \<Rightarrow>
                       (case currentSession of
                          Some cs \<Rightarrow>
                            Inr (fetchUserProfile
                                   (s1\<lparr>session := Some cs, user := Some (session_user cs)\<rparr>)
                                   (user_id (session_user cs)))
                        | None \<Rightarrow> Inr (resetAuthState s1))))"

definition initializeAuth_catch :: "provider \<Rightarrow> js_exn \<Rightarrow> provider" where
  "initializeAuth_catch s e =
     (let s1 = clear_initializationTimeout s
      in if mounted s1 then resetAuthState s1 else s1)"

definition initializeAuth_resume ::
  "provider \<Rightarrow> (session option \<times> auth_error option) settled \<Rightarrow> js_exn + provider" where
  "initializeAuth_resume s settlement =
     (case initializeAuth_try s settlement of
        Inr s' \<Rightarrow> Inr s'
      | Inl e \<Rightarrow> Inr (initializeAuth_catch s e))"

definition handleAuthStateChange :: "provider \<Rightarrow> string \<Rightarrow> session option \<Rightarrow> provider" where
  "handleAuthStateChange s event newSession =
     (if \<not> mounted s then s
      else let s1 = abort_controller s;
               s2 = s1\<lparr>session := newSession, user := map_option session_user newSession\<rparr>
           in (case newSession of
                 Some ns \<Rightarrow> fetchUserProfile s2 (user_id (session_user ns))
               | None \<Rightarrow> resetAuthState s2))"

text \<open>
  The cleanup function of the effect. Its \<open>subscription.unsubscribe()\<close> needs no field
  of its own: from then on \<open>mounted\<close> is false and the listener returns at once.
\<close>

definition cleanup :: "provider \<Rightarrow> provider" where
  "cleanup s =
     (let s1 = s\<lparr>mounted := False\<rparr>;
          s2 = (if initializationTimeout s1 then s1\<lparr>timer_pending := False\<rparr> else s1)
      in abort_controller s2)"

text \<open>
  The three actions, each cut at its \<open>await\<close>s. They are defined outside the effect and
  do not read \<open>mounted\<close>. The \<open>{ error }\<close> object an action returns to its caller is not
  part of the provider's state and is left out.
\<close>

definition signIn :: "provider \<Rightarrow> provider" where
  "signIn s = s\<lparr>loading := True, signIn_pending := Suc (signIn_pending s)\<rparr>"

definition signIn_resume ::
  "provider \<Rightarrow> (user option \<times> session option \<times> auth_error option) settled \<Rightarrow> provider" where
  "signIn_resume s settlement =
     (case settlement of
        Rejected e \<Rightarrow> s\<lparr>loading := False\<rparr>
      | Resolved (data_user, data_session, error) \<Rightarrow>
          (case error of
             Some err \<Rightarrow> s\<lparr>loading := False\<rparr>
           | None \<Rightarrow>
               if data_user = None \<or> data_session = None then s\<lparr>loading := False\<rparr>
               else s))"

definition signUp :: "provider \<Rightarrow> provider" where
  "signUp s = s\<lparr>loading := True, signUp_pending := Suc (signUp_pending s)\<rparr>"

definition signUp_resume :: "provider \<Rightarrow> (user option \<times> auth_error option) settled \<Rightarrow> provider" where
  "signUp_resume s settlement =
     (case settlement of
        Rejected e \<Rightarrow> s\<lparr>loading := False\<rparr>
      | Resolved (data_user, error) \<Rightarrow>
          (case error of
             Some err \<Rightarrow> s\<lparr>loading := False\<rparr>
           | None \<Rightarrow>
               (case data_user of
                  Some u \<Rightarrow> s\<lparr>insert_pending := Suc (insert_pending s)\<rparr>
                | None \<Rightarrow> s\<lparr>loading := False\<rparr>)))"

definition signUp_insert_resume :: "provider \<Rightarrow> pg_error option settled \<Rightarrow> provider" where
  "signUp_insert_resume s settlement =
     (case settlement of
        Rejected e \<Rightarrow> s\<lparr>loading := False\<rparr>
      | Resolved profileError \<Rightarrow>
          (case profileError of
             Some err \<Rightarrow> s\<lparr>loading := False\<rparr>
           | None \<Rightarrow> s\<lparr>loading := False\<rparr>))"

text \<open>
  \<open>signOut\<close> up to \<open>await supabase.auth.signOut()\<close>: the state is cleared first, then
  the backend call is issued.
\<close>

definition signOut :: "provider \<Rightarrow> provider" where
  "signOut s =
     (let s1 = s\<lparr>loading := True\<rparr>;
          s2 = s1\<lparr>user := None\<rparr>;
          s3 = s2\<lparr>profile := None\<rparr>;
          s4 = s3\<lparr>session := None\<rparr>
      in s4\<lparr>signOut_pending := Suc (signOut_pending s4)\<rparr>)"

definition signOut_resume :: "provider \<Rightarrow> auth_error option settled \<Rightarrow> provider" where
  "signOut_resume s settlement =
     (case settlement of
        Rejected e \<Rightarrow> s\<lparr>loading := False\<rparr>
      | Resolved error \<Rightarrow> s\<lparr>loading := False\<rparr>)"

subsection \<open>Events\<close>

text \<open>
  Everything that can happen to a mounted provider from outside: a suspended call
  settles, the 5000 ms of the startup timer elapse, the identity client pushes a session
  change, a consumer calls an action, the provider unmounts. Each event runs one
  synchronous stretch of code; the states between events are the ones a render can show.
  An event that cannot happen in a state (the settlement of a call that is not waiting,
  the timer after it was cleared) leaves the state as it is.
\<close>

datatype event =
    GetSessionSettles "(session option \<times> auth_error option) settled"
  | TimeoutElapses
  | AuthStateChange string "session option"
  | FetchSettles nat "(profile option \<times> pg_error option) settled"
  | SignIn
  | SignInSettles "(user option \<times> session option \<times> auth_error option) settled"
  | SignUp
  | SignUpSettles "(user option \<times> auth_error option) settled"
  | InsertSettles "pg_error option settled"
  | SignOut
  | SignOutSettles "auth_error option settled"
  | Unmount

text \<open>Where a continuation's promise rejects, nobody handles it and the state stays.\<close>

definition settle :: "provider \<Rightarrow> js_exn + provider \<Rightarrow> provider" where
  "settle s r = (case r of Inr s' \<Rightarrow> s' | Inl e \<Rightarrow> s)"

fun step :: "provider \<Rightarrow> event \<Rightarrow> provider" where
  "step s (GetSessionSettles r) =
     (if getSession_pending s
      then let s1 = s\<lparr>getSession_pending := False\<rparr> in settle s1 (initializeAuth_resume s1 r)
      else s)"
| "step s TimeoutElapses =
     (if timer_pending s
      then initializationTimeout_callback (s\<lparr>timer_pending := False\<rparr>)
      else s)"
| "step s (AuthStateChange ev newSession) = handleAuthStateChange s ev newSession"
| "step s (FetchSettles c r) =
     (case map_of (fetches s) c of
        None \<Rightarrow> s
      | Some userId \<Rightarrow>
          let s1 = s\<lparr>fetches := filter (\<lambda>f. fst f \<noteq> c) (fetches s)\<rparr>
          in settle s1 (fetchUserProfile_resume s1 userId r))"
| "step s SignIn = signIn s"
| "step s (SignInSettles r) =
     (if 0 < signIn_pending s
      then signIn_resume (s\<lparr>signIn_pending := signIn_pending s - 1\<rparr>) r
      else s)"
| "step s SignUp = signUp s"
| "step s (SignUpSettles r) =
     (if 0 < signUp_pending s
      then signUp_resume (s\<lparr>signUp_pending := signUp_pending s - 1\<rparr>) r
      else s)"
| "step s (InsertSettles r) =
     (if 0 < insert_pending s
      then signUp_insert_resume (s\<lparr>insert_pending := insert_pending s - 1\<rparr>) r
      else s)"
| "step s SignOut = signOut s"
| "step s (SignOutSettles r) =
     (if 0 < signOut_pending s
      then signOut_resume (s\<lparr>signOut_pending := signOut_pending s - 1\<rparr>) r
      else s)"
| "step s Unmount = cleanup s"

fun run :: "provider \<Rightarrow> event list \<Rightarrow> provider" where
  "run s [] = s"
| "run s (e # es) = run (step s e) es"

text \<open>
  The provider once its effect has run: the listener is subscribed, \<open>initializeAuth\<close>
  has armed the timer and waits for \<open>getSession\<close>.
\<close>

definition mounted_provider :: provider where
  "mounted_provider =
     \<lparr>user = None, profile = None, session = None, loading = True,
      mounted = True, profileFetchController = None, aborted = {}, controllers = 0,
      initializationTimeout = True, timer_pending = True, getSession_pending = True,
      fetches = [], signIn_pending = 0, signUp_pending = 0, insert_pending = 0,
      signOut_pending = 0\<rparr>"

section \<open>The provider of the second source file\<close>

text \<open>
  The repository holds a second \<open>AuthProvider\<close> (the source file with \<open>fetchProfile\<close>
  and \<open>getInitialSession\<close>). It has no abort controller and no startup timer; it keeps a
  fifth state cell, \<open>initializing\<close>. Its names carry the suffix 2 here. Its \<open>signIn\<close>
  and \<open>signUp\<close> write no cell but \<open>loading\<close> and are not embedded.

  A profile query remembers who awaits it: \<open>getInitialSession\<close> runs its \<open>finally\<close>
  block once the fetch it awaited is over, the listener has nothing left to do.
\<close>

datatype origin = FromInitialSession | FromListener

record provider2 = auth_state +
  initializing :: bool
  mounted2 :: bool
  getSession_pending2 :: bool
  fetches2 :: "(nat \<times> origin \<times> string) list"
  next_fetch2 :: nat
  signOut_pending2 :: nat
  signOut_delay2 :: nat

text \<open>
  The effect has an empty dependency list, so \<open>getInitialSession\<close>, the listener and the
  \<open>fetchProfile\<close> they call are the closures of the first render, in which
  \<open>initializing\<close> is \<open>true\<close>. \<open>setInitializing(false)\<close> changes the cell, not what
  these closures read.
\<close>

definition initializing_captured :: bool where
  "initializing_captured = True"

definition fetchProfile :: "provider2 \<Rightarrow> origin \<Rightarrow> string \<Rightarrow> provider2" where
  "fetchProfile s from userId =
     s\<lparr>fetches2 := fetches2 s @ [(next_fetch2 s, from, userId)],
       next_fetch2 := Suc (next_fetch2 s)\<rparr>"

text \<open>\<open>fetchProfile\<close> after its \<open>await\<close>: no guard at all, then the \<open>finally\<close> block.\<close>

definition fetchProfile_resume ::
  "provider2 \<Rightarrow> string \<Rightarrow> (profile option \<times> pg_error option) settled \<Rightarrow> provider2" where
  "fetchProfile_resume s userId settlement =
     (let s1 = (case settlement of
                  Rejected e \<Rightarrow> s\<lparr>profile := None\<rparr>
                | Resolved (data, error) \<Rightarrow>
                    (case error of
                       Some err \<Rightarrow>
                         if code err = ''PGRST116''
                         then s\<lparr>profile := None\<rparr>
                         else s\<lparr>profile := None\<rparr>
                     | None \<Rightarrow>
                         (case data of
                            Some row \<Rightarrow> s\<lparr>profile := Some row\<rparr>
                          | None \<Rightarrow> s\<lparr>profile := None\<rparr>)))
      in if \<not> initializing_captured then s1\<lparr>loading := False\<rparr> else s1)"

definition getInitialSession_finally :: "provider2 \<Rightarrow> provider2" where
  "getInitialSession_finally s =
     (if mounted2 s then s\<lparr>loading := False, initializing := False\<rparr> else s)"

definition clear_cells :: "provider2 \<Rightarrow> provider2" where
  "clear_cells s = s\<lparr>session := None, user := None, profile := None\<rparr>"

text \<open>
  \<open>getInitialSession\<close> after \<open>await supabase.auth.getSession()\<close>. With a user in the
  session it suspends again in \<open>await fetchProfile(...)\<close>, and its \<open>finally\<close> block
  runs when that fetch settles (see \<open>step2\<close>).
\<close>

definition getInitialSession_resume ::
  "provider2 \<Rightarrow> (session option \<times> auth_error option) settled \<Rightarrow> provider2" where
  "getInitialSession_resume s settlement =
     (case settlement of
        Rejected e \<Rightarrow>
          getInitialSession_finally (if mounted2 s then clear_cells s else s)
      | Resolved (sess, error) \<Rightarrow>
          if \<not> mounted2 s then getInitialSession_finally s
          else (case error of
                  Some err \<Rightarrow> getInitialSession_finally (clear_cells s)
                | None \<Rightarrow>
                    let s1 = s\<lparr>session := sess, user := map_option session_user sess\<rparr>
                    in (case sess of
                          Some x \<Rightarrow> fetchProfile s1 FromInitialSession (user_id (session_user x))
                        | None \<Rightarrow> getInitialSession_finally s1)))"

text \<open>The callback given to \<open>onAuthStateChange\<close>.\<close>

definition onAuthStateChange :: "provider2 \<Rightarrow> string \<Rightarrow> session option \<Rightarrow> provider2" where
  "onAuthStateChange s event sess =
     (if \<not> mounted2 s then s
      else let s1 = s\<lparr>session := sess, user := map_option session_user sess\<rparr>
           in (case sess of
                 Some x \<Rightarrow> fetchProfile s1 FromListener (user_id (session_user x))
               | None \<Rightarrow>
                   let s2 = s1\<lparr>profile := None\<rparr>
                   in if \<not> initializing_captured then s2\<lparr>loading := False\<rparr> else s2))"

text \<open>
  \<open>signOut\<close> of the second file: the same clearing before the backend call, then a
  100 ms pause before the \<open>finally\<close> block.
\<close>

definition signOut2 :: "provider2 \<Rightarrow> provider2" where
  "signOut2 s =
     (let s1 = s\<lparr>loading := True\<rparr>;
          s2 = s1\<lparr>user := None\<rparr>;
          s3 = s2\<lparr>profile := None\<rparr>;
          s4 = s3\<lparr>session := None\<rparr>
      in s4\<lparr>signOut_pending2 := Suc (signOut_pending2 s4)\<rparr>)"

definition signOut2_resume :: "provider2 \<Rightarrow> auth_error option settled \<Rightarrow> provider2" where
  "signOut2_resume s settlement =
     (case settlement of
        Rejected e \<Rightarrow> s\<lparr>loading := False\<rparr>
      | Resolved error \<Rightarrow> s\<lparr>signOut_delay2 := Suc (signOut_delay2 s)\<rparr>)"

definition signOut2_finally :: "provider2 \<Rightarrow> provider2" where
  "signOut2_finally s = s\<lparr>loading := False\<rparr>"

datatype event2 =
    GetSessionSettles2 "(session option \<times> auth_error option) settled"
  | AuthStateChange2 string "session option"
  | FetchSettles2 nat "(profile option \<times> pg_error option) settled"
  | SignOut2
  | SignOutSettles2 "auth_error option settled"
  | SignOutDelayElapses2
  | Unmount2

fun step2 :: "provider2 \<Rightarrow> event2 \<Rightarrow> provider2" where
  "step2 s (GetSessionSettles2 r) =
     (if getSession_pending2 s
      then getInitialSession_resume (s\<lparr>getSession_pending2 := False\<rparr>) r
      else s)"
| "step2 s (AuthStateChange2 ev sess) = onAuthStateChange s ev sess"
| "step2 s (FetchSettles2 k r) =
     (case map_of (fetches2 s) k of
        None \<Rightarrow> s
      | Some (from, userId) \<Rightarrow>
          let s1 = s\<lparr>fetches2 := filter (\<lambda>f. fst f \<noteq> k) (fetches2 s)\<rparr>;
              s2 = fetchProfile_resume s1 userId r
          in (case from of
                FromInitialSession \<Rightarrow> getInitialSession_finally s2
              | FromListener \<Rightarrow> s2))"
| "step2 s SignOut2 = signOut2 s"
| "step2 s (SignOutSettles2 r) =
     (if 0 < signOut_pending2 s
      then signOut2_resume (s\<lparr>signOut_pending2 := signOut_pending2 s - 1\<rparr>) r
      else s)"
| "step2 s SignOutDelayElapses2 =
     (if 0 < signOut_delay2 s
      then signOut2_finally (s\<lparr>signOut_delay2 := signOut_delay2 s - 1\<rparr>)
      else s)"
| "step2 s Unmount2 = s\<lparr>mounted2 := False\<rparr>"


definition mounted_provider2 :: provider2 where
  "mounted_provider2 =
     \<lparr>user = None, profile = None, session = None, loading = True,
      initializing = True, mounted2 = True, getSession_pending2 = True, fetches2 = [],
      next_fetch2 = 0, signOut_pending2 = 0, signOut_delay2 = 0\<rparr>"

text \<open>The state the spec calls Unauthenticated.\<close>

definition unauthenticated :: "'a auth_state_scheme \<Rightarrow> bool" where
  "unauthenticated s = (user s = None \<and> profile s = None \<and> session s = None \<and> \<not> loading s)"

section \<open>Properties of states and traces\<close>











text \<open>The three cells \<open>signOut\<close> clears.\<close>

definition cleared :: "'a auth_state_scheme \<Rightarrow> bool" where
  "cleared s = (user s = None \<and> profile s = None \<and> session s = None)"

text \<open>Two users, their sessions and their profile rows, for the concrete traces.\<close>

definition alice :: user where
  "alice = \<lparr>user_id = ''u1'', user_email = ''alice@example.org''\<rparr>"

definition bob :: user where
  "bob = \<lparr>user_id = ''u2'', user_email = ''bob@example.org''\<rparr>"

definition alice_session :: session where
  "alice_session = \<lparr>access_token = ''t1'', session_user = alice\<rparr>"

definition bob_session :: session where
  "bob_session = \<lparr>access_token = ''t2'', session_user = bob\<rparr>"

definition alice_profile :: profile where
  "alice_profile =
     \<lparr>profile_id = ''u1'', email = ''alice@example.org'', full_name = ''Alice'',
      role = ''student''\<rparr>"

definition bob_profile :: profile where
  "bob_profile =
     \<lparr>profile_id = ''u2'', email = ''bob@example.org'', full_name = ''Bob'',
      role = ''admin''\<rparr>"

text \<open>
  Controller numbers are handed out in order, so a new controller is never an aborted
  one.
\<close>

definition fresh :: "provider \<Rightarrow> bool" where
  "fresh s =
     ((\<forall>c\<in>aborted s. c < controllers s) \<and>
      (case profileFetchController s of None \<Rightarrow> True | Some c \<Rightarrow> c < controllers s))"

text \<open>While a mounted provider holds a user, the controller in the shared variable is live.\<close>

definition live :: "provider \<Rightarrow> bool" where
  "live s =
     (mounted s \<and> user s \<noteq> None \<longrightarrow>
        (case profileFetchController s of None \<Rightarrow> False | Some c \<Rightarrow> c \<notin> aborted s))"



text \<open>
  The events that leave the startup timer armed: all but the settlement of the session
  query, the timer itself and the unmount.
\<close>

fun waits :: "event \<Rightarrow> bool" where
  "waits (GetSessionSettles r) = False"
| "waits TimeoutElapses = False"
| "waits Unmount = False"
| "waits e = True"

text \<open>Such an event that moreover brings no session: nothing has been resolved yet.\<close>

fun quiet :: "event \<Rightarrow> bool" where
  "quiet (GetSessionSettles r) = False"
| "quiet TimeoutElapses = False"
| "quiet Unmount = False"
| "quiet (AuthStateChange ev (Some ns)) = False"
| "quiet e = True"

definition idle :: "provider \<Rightarrow> bool" where
  "idle s = (mounted s \<and> timer_pending s \<and> cleared s \<and> fetches s = [])"

definition timer_held :: "provider \<Rightarrow> bool" where
  "timer_held s = (timer_pending s \<longrightarrow> initializationTimeout s)"

section \<open>Theorems\<close>

lemmas provider_defs =
  abort_controller_def clear_initializationTimeout_def resetAuthState_def
  fetchUserProfile_def fetchUserProfile_try_def fetchUserProfile_catch_def
  fetchUserProfile_finally_def fetchUserProfile_resume_def
  initializationTimeout_callback_def initializeAuth_try_def initializeAuth_catch_def
  initializeAuth_resume_def handleAuthStateChange_def cleanup_def signIn_def
  signIn_resume_def signUp_def signUp_resume_def signUp_insert_resume_def signOut_def
  signOut_resume_def settle_def


lemmas people_defs =
  alice_def bob_def alice_session_def bob_session_def alice_profile_def bob_profile_def

subsection \<open>Reachable states\<close>

lemma run_append: "run s (es @ es') = run (run s es) es'"
  by (induction es arbitrary: s) auto

lemma fresh_step: "fresh s \<Longrightarrow> fresh (step s e)"
  by (cases e)
     (auto simp: fresh_def provider_defs Let_def
           split: option.splits settled.splits if_splits sum.splits intro: less_SucI)

lemma live_step: "fresh s \<Longrightarrow> live s \<Longrightarrow> live (step s e)"
  by (cases e)
     (auto simp: fresh_def live_def provider_defs Let_def
           split: option.splits settled.splits if_splits sum.splits)

lemma fresh_live_run: "fresh s \<Longrightarrow> live s \<Longrightarrow> fresh (run s es) \<and> live (run s es)"
  by (induction es arbitrary: s) (auto intro: fresh_step live_step)

lemma fresh_live_reachable: "fresh (run mounted_provider es) \<and> live (run mounted_provider es)"
  by (rule fresh_live_run) (simp_all add: fresh_def live_def mounted_provider_def)


subsection \<open>Profile and user\<close>












subsection \<open>Sign-out\<close>

text \<open>
  C5: in both providers \<open>signOut\<close> has cleared user, profile and session when its
  backend call is waiting, and whatever that call answers (success, an error value, a
  rejection) the continuation of \<open>signOut\<close> leaves the three cells as they are, so a
  settlement right after the call finds and leaves them cleared. In the second provider
  the same holds across the 100 ms pause.
\<close>

theorem signOut_clears_before_backend:
  "cleared (signOut s) \<and> 0 < signOut_pending (signOut s) \<and>
   cleared (step (signOut s) (SignOutSettles r)) \<and>
   user (step s' (SignOutSettles r)) = user s' \<and>
   profile (step s' (SignOutSettles r)) = profile s' \<and>
   session (step s' (SignOutSettles r)) = session s' \<and>
   cleared (signOut2 t) \<and> 0 < signOut_pending2 (signOut2 t) \<and>
   cleared (step2 (step2 (signOut2 t) (SignOutSettles2 r)) SignOutDelayElapses2) \<and>
   user (step2 t' (SignOutSettles2 r)) = user t' \<and>
   profile (step2 t' (SignOutSettles2 r)) = profile t' \<and>
   session (step2 t' (SignOutSettles2 r)) = session t' \<and>
   user (step2 t' SignOutDelayElapses2) = user t' \<and>
   profile (step2 t' SignOutDelayElapses2) = profile t' \<and>
   session (step2 t' SignOutDelayElapses2) = session t'"
  by (simp add: cleared_def signOut_def signOut_resume_def signOut2_def signOut2_resume_def
        signOut2_finally_def split: settled.splits)

subsection \<open>The initial session query\<close>

text \<open>
  C7: when the initial session query of a mounted provider resolves with no session,
  resolves with an error, or rejects, \<open>initializeAuth\<close> does not throw and leaves the
  Unauthenticated state: user, profile and session null, loading false.
\<close>

theorem initial_query_failure_collapses:
  assumes "mounted s"
    and "r = Resolved (None, None) \<or> r = Resolved (cs, Some err) \<or> r = Rejected e"
  shows "(case initializeAuth_resume s r of Inl x \<Rightarrow> False | Inr s' \<Rightarrow> unauthenticated s') \<and>
         (getSession_pending s \<longrightarrow> unauthenticated (step s (GetSessionSettles r)))"
  using assms
  by (auto simp: unauthenticated_def initializeAuth_resume_def initializeAuth_try_def
        initializeAuth_catch_def resetAuthState_def clear_initializationTimeout_def
        settle_def Let_def split: if_splits)

theorem initial_query_failure_collapses_witness:
  "mounted mounted_provider \<and> getSession_pending mounted_provider \<and>
   unauthenticated (step mounted_provider (GetSessionSettles (Resolved (None, None)))) \<and>
   unauthenticated
     (step mounted_provider
        (GetSessionSettles (Rejected (JsExn ''TypeError'' ''Failed to fetch''))))"
proof -
  have m: "mounted mounted_provider" and p: "getSession_pending mounted_provider"
    by (simp_all add: mounted_provider_def)
  show ?thesis
    using m p
      initial_query_failure_collapses
        [of mounted_provider "Resolved (None, None)" None "[]" "JsExn [] []"]
      initial_query_failure_collapses
        [of mounted_provider "Rejected (JsExn ''TypeError'' ''Failed to fetch'')" None "[]"
            "JsExn ''TypeError'' ''Failed to fetch''"]
    by simp
qed

subsection \<open>The consumer surface\<close>

text \<open>
  C9: outside every provider \<open>useAuth\<close> throws; inside one it returns the value the
  provider supplies, with all of user, profile, session, loading, isAdmin and isStudent.
\<close>

theorem useAuth_throws_outside_provider:
  "useAuth (None :: provider option) =
     Inl (JsExn ''Error'' ''useAuth must be used within an AuthProvider'') \<and>
   useAuth (Some s) = Inr (provider_value s) \<and>
   value_user (provider_value s) = user s \<and>
   value_profile (provider_value s) = profile s \<and>
   value_session (provider_value s) = session s \<and>
   value_loading (provider_value s) = loading s \<and>
   value_isAdmin (provider_value s) = isAdmin s \<and>
   value_isStudent (provider_value s) = isStudent s"
  by (simp add: useAuth_def useContext_def provider_value_def)

text \<open>
  C10: \<open>isAdmin\<close> holds exactly when there is a profile whose role is \<open>'admin'\<close>,
  \<open>isStudent\<close> exactly when there is one whose role is \<open>'student'\<close>; they never hold
  together, and neither holds without a profile. The two providers compute them alike.
\<close>

theorem role_flags:
  "isAdmin s = (case profile s of None \<Rightarrow> False | Some p \<Rightarrow> role p = ''admin'') \<and>
   isStudent s = (case profile s of None \<Rightarrow> False | Some p \<Rightarrow> role p = ''student'') \<and>
   \<not> (isAdmin s \<and> isStudent s) \<and>
   (profile s = None \<longrightarrow> \<not> isAdmin s \<and> \<not> isStudent s)"
  by (auto simp: isAdmin_def isStudent_def split: option.splits)

theorem role_flags_witness:
  "profile mounted_provider = None \<and> \<not> isAdmin mounted_provider \<and>
   \<not> isStudent mounted_provider \<and> profile mounted_provider2 = None \<and>
   \<not> isAdmin mounted_provider2 \<and> \<not> isStudent mounted_provider2"
proof -
  have h: "profile mounted_provider = None" and h2: "profile mounted_provider2 = None"
    by (simp_all add: mounted_provider_def mounted_provider2_def)
  show ?thesis
    using h h2 role_flags [of mounted_provider] role_flags [of mounted_provider2]
    by blast
qed

subsection \<open>Late settlements\<close>

text \<open>
  C2 at a concrete interleaving: the listener receives a session for one user and, before
  that user's profile query settles, a session for another. The first query (controller 0)
  is aborted and still waiting, the second (controller 1) is current. When the first one
  settles, however it settles, \<open>loading\<close> goes from true to false although the second is
  still waiting. If it settles after the second, an error result wipes the profile just
  loaded and a row replaces it with the profile of the superseded user: the guard looks
  at the controller now in the shared variable, which is the live one.
\<close>

theorem late_settlement_changes_state:
  "loading (run mounted_provider
      [AuthStateChange ''SIGNED_IN'' (Some alice_session),
       AuthStateChange ''SIGNED_IN'' (Some bob_session)]) \<and>
   fetches (run mounted_provider
      [AuthStateChange ''SIGNED_IN'' (Some alice_session),
       AuthStateChange ''SIGNED_IN'' (Some bob_session)]) = [(0, ''u1''), (1, ''u2'')] \<and>
   aborted (run mounted_provider
      [AuthStateChange ''SIGNED_IN'' (Some alice_session),
       AuthStateChange ''SIGNED_IN'' (Some bob_session)]) = {0} \<and>
   \<not> loading (run mounted_provider
      [AuthStateChange ''SIGNED_IN'' (Some alice_session),
       AuthStateChange ''SIGNED_IN'' (Some bob_session),
       FetchSettles 0 r]) \<and>
   fetches (run mounted_provider
      [AuthStateChange ''SIGNED_IN'' (Some alice_session),
       AuthStateChange ''SIGNED_IN'' (Some bob_session),
       FetchSettles 0 r]) = [(1, ''u2'')] \<and>
   profile (run mounted_provider
      [AuthStateChange ''SIGNED_IN'' (Some alice_session),
       AuthStateChange ''SIGNED_IN'' (Some bob_session),
       FetchSettles 1 (Resolved (Some bob_profile, None))]) = Some bob_profile \<and>
   profile (run mounted_provider
      [AuthStateChange ''SIGNED_IN'' (Some alice_session),
       AuthStateChange ''SIGNED_IN'' (Some bob_session),
       FetchSettles 1 (Resolved (Some bob_profile, None)),
       FetchSettles 0 (Resolved (None, Some \<lparr>code = []\<rparr>))]) = None \<and>
   profile (run mounted_provider
      [AuthStateChange ''SIGNED_IN'' (Some alice_session),
       AuthStateChange ''SIGNED_IN'' (Some bob_session),
       FetchSettles 1 (Resolved (Some bob_profile, None)),
       FetchSettles 0 (Resolved (Some alice_profile, None))]) = Some alice_profile"
  by (cases r)
     (auto simp: mounted_provider_def provider_defs people_defs Let_def
        split: option.splits prod.splits)

subsection \<open>A session delivered again\<close>

text \<open>
  C3, as the spec states it: a session equal to the one held is a no-op refresh that does
  not restart the profile fetch. The listener has no such check: with the session held
  and no fetch waiting, delivering the same session again starts a fetch.
\<close>

theorem same_session_is_not_a_no_op:
  "session (run mounted_provider
      [AuthStateChange ''SIGNED_IN'' (Some alice_session),
       FetchSettles 0 (Resolved (Some alice_profile, None))]) = Some alice_session \<and>
   fetches (run mounted_provider
      [AuthStateChange ''SIGNED_IN'' (Some alice_session),
       FetchSettles 0 (Resolved (Some alice_profile, None))]) = [] \<and>
   fetches (run mounted_provider
      [AuthStateChange ''SIGNED_IN'' (Some alice_session),
       FetchSettles 0 (Resolved (Some alice_profile, None)),
       AuthStateChange ''TOKEN_REFRESHED'' (Some alice_session)]) = [(1, ''u1'')]"
  by (simp add: mounted_provider_def provider_defs people_defs)

text \<open>
  C3, amended: when a mounted provider that holds a session receives a session with the
  same user id, the delivery stores the new session and its user and leaves profile and
  loading as they were, but it aborts the controller in the shared variable and starts a
  new profile fetch for that user id under a new controller.
\<close>

theorem same_session_restarts_fetch:
  assumes "mounted s" and "session s = Some cur"
    and "user_id (session_user ns) = user_id (session_user cur)"
  shows "session (step s (AuthStateChange ev (Some ns))) = Some ns \<and>
         user (step s (AuthStateChange ev (Some ns))) = Some (session_user ns) \<and>
         profile (step s (AuthStateChange ev (Some ns))) = profile s \<and>
         loading (step s (AuthStateChange ev (Some ns))) = loading s \<and>
         aborted (step s (AuthStateChange ev (Some ns))) =
           (case profileFetchController s of
              None \<Rightarrow> aborted s
            | Some c \<Rightarrow> insert c (aborted s)) \<and>
         profileFetchController (step s (AuthStateChange ev (Some ns))) =
           Some (controllers s) \<and>
         fetches (step s (AuthStateChange ev (Some ns))) =
           fetches s @ [(controllers s, user_id (session_user cur))]"
  using assms
  by (auto simp: handleAuthStateChange_def fetchUserProfile_def abort_controller_def Let_def
        split: option.splits)

theorem same_session_restarts_fetch_witness:
  "mounted (run mounted_provider
      [AuthStateChange ''SIGNED_IN'' (Some alice_session),
       FetchSettles 0 (Resolved (Some alice_profile, None))]) \<and>
   session (run mounted_provider
      [AuthStateChange ''SIGNED_IN'' (Some alice_session),
       FetchSettles 0 (Resolved (Some alice_profile, None))]) = Some alice_session \<and>
   profile (step (run mounted_provider
      [AuthStateChange ''SIGNED_IN'' (Some alice_session),
       FetchSettles 0 (Resolved (Some alice_profile, None))])
      (AuthStateChange ''TOKEN_REFRESHED'' (Some alice_session))) = Some alice_profile \<and>
   \<not> loading (step (run mounted_provider
      [AuthStateChange ''SIGNED_IN'' (Some alice_session),
       FetchSettles 0 (Resolved (Some alice_profile, None))])
      (AuthStateChange ''TOKEN_REFRESHED'' (Some alice_session)))"
proof -
  let ?s = "run mounted_provider
      [AuthStateChange ''SIGNED_IN'' (Some alice_session),
       FetchSettles 0 (Resolved (Some alice_profile, None))]"
  have m: "mounted ?s" and c: "session ?s = Some alice_session"
    and p: "profile ?s = Some alice_profile" and l: "\<not> loading ?s"
    by (simp_all add: mounted_provider_def provider_defs people_defs)
  show ?thesis
    using m c p l
      same_session_restarts_fetch [OF m c refl, of "''TOKEN_REFRESHED''"]
    by simp
qed

subsection \<open>The startup timer\<close>

lemma waits_step:
  "mounted s \<Longrightarrow> timer_pending s \<Longrightarrow> waits e \<Longrightarrow>
   mounted (step s e) \<and> timer_pending (step s e)"
  by (cases e)
     (auto simp: provider_defs Let_def
           split: option.splits settled.splits if_splits sum.splits)

lemma waits_run:
  "mounted s \<Longrightarrow> timer_pending s \<Longrightarrow> list_all waits es \<Longrightarrow>
   mounted (run s es) \<and> timer_pending (run s es)"
proof (induction es arbitrary: s)
  case Nil
  then show ?case by simp
next
  case (Cons e es)
  then have "mounted (step s e) \<and> timer_pending (step s e)"
    by (intro waits_step) auto
  then show ?case using Cons.IH [of "step s e"] Cons.prems(3) by simp
qed

lemma idle_step: "idle s \<Longrightarrow> quiet e \<Longrightarrow> idle (step s e)"
  by (cases e rule: quiet.cases)
     (auto simp: idle_def cleared_def provider_defs Let_def
           split: settled.splits option.splits)

lemma idle_run: "idle s \<Longrightarrow> list_all quiet es \<Longrightarrow> idle (run s es)"
  by (induction es arbitrary: s) (auto intro: idle_step)

lemma timer_held_step: "timer_held s \<Longrightarrow> timer_held (step s e)"
  by (cases e)
     (auto simp: timer_held_def provider_defs Let_def
           split: option.splits settled.splits if_splits sum.splits)

lemma timer_held_run: "timer_held s \<Longrightarrow> timer_held (run s es)"
  by (induction es arbitrary: s) (auto intro: timer_held_step)

lemma timer_cleared:
  "timer_held s \<Longrightarrow> mounted s \<Longrightarrow> getSession_pending s \<Longrightarrow>
   \<not> timer_pending (step s (GetSessionSettles r))"
  by (auto simp: timer_held_def provider_defs Let_def
        split: option.splits settled.splits if_splits sum.splits)

text \<open>
  C4, as the spec states it: for every input sequence \<open>loading\<close> is false once the
  startup timeout has elapsed. It fails when the session query answers in time with a
  session: the answer clears the timer, and \<open>loading\<close> then waits for the profile fetch
  alone; with that fetch still out when the 5000 ms elapse, \<open>loading\<close> is true.
\<close>

theorem timer_cleared_by_session_answer:
  "loading (run mounted_provider []) \<and>
   loading (run mounted_provider [GetSessionSettles (Resolved (Some alice_session, None))]) \<and>
   loading (run mounted_provider
     [GetSessionSettles (Resolved (Some alice_session, None)), TimeoutElapses])"
  by (simp add: mounted_provider_def provider_defs people_defs)

lemma fetch_settlement_clears_loading:
  "mounted s \<Longrightarrow> map_of (fetches s) c \<noteq> None \<Longrightarrow> \<not> loading (step s (FetchSettles c out))"
  by (auto simp: provider_defs Let_def split: option.splits settled.splits sum.splits)

lemma no_session_clears_loading: "mounted s \<Longrightarrow> \<not> loading (step s (AuthStateChange ev None))"
  by (simp add: provider_defs Let_def split: option.splits)

text \<open>
  C4, amended: if the session query has not settled and the provider is mounted when the
  5000 ms elapse, \<open>loading\<close> is false right after, whatever else happened before; if
  moreover no session was pushed before, the state is then Unauthenticated. Once the
  session query of a mounted provider has settled the timer is cleared: the 5000 ms then
  elapse without any effect. In a mounted provider \<open>loading\<close> is set to false by the
  settlement of any outstanding profile fetch, whatever its outcome, and by a listener
  event without a session.
\<close>

theorem startup_timer_clears_loading:
  "(list_all waits es \<longrightarrow> \<not> loading (run mounted_provider (es @ [TimeoutElapses]))) \<and>
   (list_all quiet es \<longrightarrow> unauthenticated (run mounted_provider (es @ [TimeoutElapses]))) \<and>
   (mounted (run mounted_provider es') \<and> getSession_pending (run mounted_provider es') \<longrightarrow>
      step (step (run mounted_provider es') (GetSessionSettles r)) TimeoutElapses =
        step (run mounted_provider es') (GetSessionSettles r)) \<and>
   (mounted s \<and> map_of (fetches s) c \<noteq> None \<longrightarrow> \<not> loading (step s (FetchSettles c out))) \<and>
   (mounted s \<longrightarrow> \<not> loading (step s (AuthStateChange ev None)))"
proof -
  have 1: "\<not> loading (run mounted_provider (es @ [TimeoutElapses]))" if "list_all waits es"
  proof -
    have "mounted (run mounted_provider es) \<and> timer_pending (run mounted_provider es)"
      using that by (intro waits_run) (simp_all add: mounted_provider_def)
    then show ?thesis by (simp add: run_append initializationTimeout_callback_def)
  qed
  have 2: "unauthenticated (run mounted_provider (es @ [TimeoutElapses]))"
    if "list_all quiet es"
  proof -
    have "idle mounted_provider"
      by (simp add: idle_def cleared_def mounted_provider_def)
    then have "idle (run mounted_provider es)"
      using that by (intro idle_run)
    then show ?thesis
      by (simp add: run_append idle_def cleared_def unauthenticated_def
            initializationTimeout_callback_def)
  qed
  have "timer_held (run mounted_provider es')"
    by (rule timer_held_run) (simp add: timer_held_def mounted_provider_def)
  then have 3: "mounted (run mounted_provider es') \<and>
      getSession_pending (run mounted_provider es') \<longrightarrow>
      step (step (run mounted_provider es') (GetSessionSettles r)) TimeoutElapses =
        step (run mounted_provider es') (GetSessionSettles r)"
    using timer_cleared [of "run mounted_provider es'" r] by simp
  have 4: "mounted s \<and> map_of (fetches s) c \<noteq> None \<longrightarrow>
      \<not> loading (step s (FetchSettles c out))"
    using fetch_settlement_clears_loading by blast
  have 5: "mounted s \<longrightarrow> \<not> loading (step s (AuthStateChange ev None))"
    using no_session_clears_loading by blast
  from 1 2 3 4 5 show ?thesis by blast
qed

theorem startup_timer_clears_loading_witness:
  "list_all waits [AuthStateChange ''SIGNED_IN'' (Some alice_session), SignIn] \<and>
   \<not> loading (run mounted_provider
       ([AuthStateChange ''SIGNED_IN'' (Some alice_session), SignIn] @ [TimeoutElapses])) \<and>
   list_all quiet [SignIn, AuthStateChange ''SIGNED_OUT'' None] \<and>
   unauthenticated (run mounted_provider
       ([SignIn, AuthStateChange ''SIGNED_OUT'' None] @ [TimeoutElapses])) \<and>
   mounted (run mounted_provider []) \<and> getSession_pending (run mounted_provider []) \<and>
   step (step (run mounted_provider [])
          (GetSessionSettles (Resolved (Some alice_session, None)))) TimeoutElapses =
     step (run mounted_provider []) (GetSessionSettles (Resolved (Some alice_session, None))) \<and>
   mounted (run mounted_provider [GetSessionSettles (Resolved (Some alice_session, None))]) \<and>
   loading (run mounted_provider [GetSessionSettles (Resolved (Some alice_session, None))]) \<and>
   map_of (fetches
       (run mounted_provider [GetSessionSettles (Resolved (Some alice_session, None))])) 0
     \<noteq> None \<and>
   \<not> loading (step
       (run mounted_provider [GetSessionSettles (Resolved (Some alice_session, None))])
       (FetchSettles 0 (Rejected (JsExn ''TypeError'' ''Failed to fetch'')))) \<and>
   \<not> loading (step
       (run mounted_provider [GetSessionSettles (Resolved (Some alice_session, None))])
       (AuthStateChange ''SIGNED_OUT'' None))"
proof -
  let ?s = "run mounted_provider [GetSessionSettles (Resolved (Some alice_session, None))]"
  have h: "list_all waits [AuthStateChange ''SIGNED_IN'' (Some alice_session), SignIn]"
    and q: "list_all quiet [SignIn, AuthStateChange ''SIGNED_OUT'' None]"
    by simp_all
  have m: "mounted (run mounted_provider [])"
    and p: "getSession_pending (run mounted_provider [])"
    by (simp_all add: mounted_provider_def)
  have ms: "mounted ?s" and ls: "loading ?s" and fs: "map_of (fetches ?s) 0 \<noteq> None"
    by (simp_all add: mounted_provider_def provider_defs people_defs)
  show ?thesis
    using h q m p ms ls fs
      startup_timer_clears_loading
        [of "[AuthStateChange ''SIGNED_IN'' (Some alice_session), SignIn]" "[]"
            "Resolved (Some alice_session, None)" "?s" 0
            "Rejected (JsExn ''TypeError'' ''Failed to fetch'')" "''SIGNED_OUT''"]
      startup_timer_clears_loading
        [of "[SignIn, AuthStateChange ''SIGNED_OUT'' None]" "[]"
            "Resolved (Some alice_session, None)" "?s" 0
            "Rejected (JsExn ''TypeError'' ''Failed to fetch'')" "''SIGNED_OUT''"]
    by blast
qed

subsection \<open>What \<open>loading\<close> waits for\<close>







subsection \<open>Profile not found\<close>

text \<open>
  C8: in a reachable state of a mounted provider that holds a user, when a profile query
  issued for that user's id resolves with the not-found error (code \<open>PGRST116\<close>), the
  user stays, profile is null and loading is false, and \<open>fetchUserProfile\<close> throws
  nothing.
\<close>

theorem profile_not_found_is_normal:
  assumes "s = run mounted_provider es" and "mounted s" and "user s = Some u"
    and "map_of (fetches s) c = Some (user_id u)" and "code err = ''PGRST116''"
  shows "user (step s (FetchSettles c (Resolved (data, Some err)))) = Some u \<and>
         profile (step s (FetchSettles c (Resolved (data, Some err)))) = None \<and>
         \<not> loading (step s (FetchSettles c (Resolved (data, Some err)))) \<and>
         (case fetchUserProfile_resume s (user_id u) (Resolved (data, Some err)) of
            Inl x \<Rightarrow> False | Inr s' \<Rightarrow> True)"
proof -
  have "live s" using assms(1) fresh_live_reachable by simp
  with assms(2,3) obtain c' where "profileFetchController s = Some c'" and "c' \<notin> aborted s"
    by (auto simp: live_def split: option.splits)
  with assms show ?thesis
    by (simp add: provider_defs)
qed

theorem profile_not_found_is_normal_witness:
  "mounted (run mounted_provider [AuthStateChange ''SIGNED_IN'' (Some alice_session)]) \<and>
   user (run mounted_provider [AuthStateChange ''SIGNED_IN'' (Some alice_session)]) =
     Some alice \<and>
   map_of (fetches (run mounted_provider [AuthStateChange ''SIGNED_IN'' (Some alice_session)]))
     0 = Some (user_id alice) \<and>
   user (run mounted_provider
          [AuthStateChange ''SIGNED_IN'' (Some alice_session),
           FetchSettles 0 (Resolved (None, Some \<lparr>code = ''PGRST116''\<rparr>))]) = Some alice \<and>
   profile (run mounted_provider
          [AuthStateChange ''SIGNED_IN'' (Some alice_session),
           FetchSettles 0 (Resolved (None, Some \<lparr>code = ''PGRST116''\<rparr>))]) = None \<and>
   \<not> loading (run mounted_provider
          [AuthStateChange ''SIGNED_IN'' (Some alice_session),
           FetchSettles 0 (Resolved (None, Some \<lparr>code = ''PGRST116''\<rparr>))])"
proof -
  let ?s = "run mounted_provider [AuthStateChange ''SIGNED_IN'' (Some alice_session)]"
  have m: "mounted ?s" and u: "user ?s = Some alice"
    and f: "map_of (fetches ?s) 0 = Some (user_id alice)"
    by (simp_all add: mounted_provider_def provider_defs people_defs)
  have c: "code \<lparr>code = ''PGRST116''\<rparr> = ''PGRST116''" by simp
  show ?thesis
    using m u f profile_not_found_is_normal [OF refl m u f c, of None]
    by simp
qed

end
